theory Spec2Isabelle
  imports Complex_Main "HOL-Library.Multiset" "HOL-Library.Char_ord" "HOL-Library.List_Lexorder"
    "HOL-Library.Product_Lexorder"
begin

section \<open>Values of the request\<close>

text \<open>
  The final \<open>server.js\<close> (the second document of \<open>src/unnamed/part_000\<close>) is an Express
  application over one SQLite file. Text is held as its UTF-8 byte sequence: the form in
  which it arrives in a JSON body, in which SQLite stores a TEXT column and in which the
  BINARY collation compares it. A JavaScript number is a double: not-a-number, an infinity
  or a finite value, the finite ones embedded in the rationals.
\<close>

datatype jsnum = NaN | PosInf | NegInf | Fin rat

datatype jsval =
    Undefined
  | Null
  | Bool bool
  | Num jsnum
  | Str string
  | Arr "jsval list"
  | Obj "(string \<times> jsval) list"

text \<open>
  What the JavaScript engine and the SQLite binding do outside the repository is taken as a
  parameter: the conversion of a string to a number, the printing of a number, and the
  text that the binding stores for a value that is neither a string nor null
  (\<open>None\<close> is SQL NULL).
\<close>

record js_env =
  str_to_num :: "string \<Rightarrow> jsnum"
  num_to_str :: "jsnum \<Rightarrow> string"
  bind_other :: "jsval \<Rightarrow> string option"

type_synonym body = "(string \<times> jsval) list"

text \<open>Reading a property of the parsed body: an absent key is \<open>undefined\<close>.\<close>

definition field :: "body \<Rightarrow> string \<Rightarrow> jsval" where
  "field b k = (case map_of b k of None \<Rightarrow> Undefined | Some v \<Rightarrow> v)"

text \<open>\<open>!v\<close> is true exactly when \<open>v\<close> is not truthy.\<close>

fun truthy :: "jsval \<Rightarrow> bool" where
  "truthy Undefined = False"
| "truthy Null = False"
| "truthy (Bool b) = b"
| "truthy (Num n) = (n \<noteq> NaN \<and> n \<noteq> Fin 0)"
| "truthy (Str s) = (s \<noteq> [])"
| "truthy (Arr xs) = True"
| "truthy (Obj kvs) = True"

fun join_comma :: "string list \<Rightarrow> string" where
  "join_comma [] = []"
| "join_comma [s] = s"
| "join_comma (s # t # ss) = s @ '','' @ join_comma (t # ss)"

text \<open>\<open>String(v)\<close>; an array prints its elements joined by commas, null and undefined
  elements as the empty string.\<close>

fun js_String :: "js_env \<Rightarrow> jsval \<Rightarrow> string" where
  "js_String env Undefined = ''undefined''"
| "js_String env Null = ''null''"
| "js_String env (Bool b) = (if b then ''true'' else ''false'')"
| "js_String env (Num n) = num_to_str env n"
| "js_String env (Str s) = s"
| "js_String env (Arr xs) =
     join_comma (map (\<lambda>x. if x = Undefined \<or> x = Null then [] else js_String env x) xs)"
| "js_String env (Obj kvs) = ''[object Object]''"

text \<open>\<open>Number(v)\<close>.\<close>

fun js_Number :: "js_env \<Rightarrow> jsval \<Rightarrow> jsnum" where
  "js_Number env Undefined = NaN"
| "js_Number env Null = Fin 0"
| "js_Number env (Bool b) = Fin (if b then 1 else 0)"
| "js_Number env (Num n) = n"
| "js_Number env (Str s) = str_to_num env s"
| "js_Number env (Arr xs) = str_to_num env (js_String env (Arr xs))"
| "js_Number env (Obj kvs) = str_to_num env (js_String env (Obj kvs))"

text \<open>The comparisons \<open>n < 0\<close> and \<open>n > 5\<close> on doubles: every comparison with NaN is false.\<close>

fun num_lt :: "jsnum \<Rightarrow> rat \<Rightarrow> bool" where
  "num_lt NaN c = False"
| "num_lt PosInf c = False"
| "num_lt NegInf c = True"
| "num_lt (Fin x) c = (x < c)"

fun num_gt :: "jsnum \<Rightarrow> rat \<Rightarrow> bool" where
  "num_gt NaN c = False"
| "num_gt PosInf c = True"
| "num_gt NegInf c = False"
| "num_gt (Fin x) c = (x > c)"

subsection \<open>String.prototype.trim\<close>

text \<open>
  \<open>trim\<close> removes white space and line terminators from both ends. These are the 25 code
  points U+0009 to U+000D, U+0020, U+00A0, U+1680, U+2000 to U+200A, U+2028, U+2029,
  U+202F, U+205F, U+3000 and U+FEFF, here in UTF-8.
\<close>

definition ws_tokens :: "string list" where
  "ws_tokens =
    [[CHR 0x09], [CHR 0x0A], [CHR 0x0B], [CHR 0x0C], [CHR 0x0D], [CHR 0x20],
     [CHR 0xC2, CHR 0xA0],
     [CHR 0xE1, CHR 0x9A, CHR 0x80],
     [CHR 0xE2, CHR 0x80, CHR 0x80], [CHR 0xE2, CHR 0x80, CHR 0x81],
     [CHR 0xE2, CHR 0x80, CHR 0x82], [CHR 0xE2, CHR 0x80, CHR 0x83],
     [CHR 0xE2, CHR 0x80, CHR 0x84], [CHR 0xE2, CHR 0x80, CHR 0x85],
     [CHR 0xE2, CHR 0x80, CHR 0x86], [CHR 0xE2, CHR 0x80, CHR 0x87],
     [CHR 0xE2, CHR 0x80, CHR 0x88], [CHR 0xE2, CHR 0x80, CHR 0x89],
     [CHR 0xE2, CHR 0x80, CHR 0x8A],
     [CHR 0xE2, CHR 0x80, CHR 0xA8], [CHR 0xE2, CHR 0x80, CHR 0xA9],
     [CHR 0xE2, CHR 0x80, CHR 0xAF],
     [CHR 0xE2, CHR 0x81, CHR 0x9F],
     [CHR 0xE3, CHR 0x80, CHR 0x80],
     [CHR 0xEF, CHR 0xBB, CHR 0xBF]]"

text \<open>The length of the white-space character that \<open>s\<close> starts with, 0 when there is none.\<close>

definition ws_head :: "string list \<Rightarrow> string \<Rightarrow> nat" where
  "ws_head toks s = (case find (\<lambda>t. take (length t) s = t) toks of
                       None \<Rightarrow> 0 | Some t \<Rightarrow> length t)"

function strip_front :: "string list \<Rightarrow> string \<Rightarrow> string" where
  "strip_front toks s =
     (if ws_head toks s = 0 \<or> s = [] then s else strip_front toks (drop (ws_head toks s) s))"
  by pat_completeness auto
termination
  by (relation "measure (\<lambda>(toks, s). length s)") auto

definition trimStart :: "string \<Rightarrow> string" where
  "trimStart s = strip_front ws_tokens s"

text \<open>At the end of the string the same characters are matched backwards.\<close>

definition trimEnd :: "string \<Rightarrow> string" where
  "trimEnd s = rev (strip_front (map rev ws_tokens) (rev s))"

definition js_trim :: "string \<Rightarrow> string" where
  "js_trim s = trimEnd (trimStart s)"

text \<open>\<open>v.trim()\<close>: only a string has the method; on any other value that reaches the call
  the handler throws a TypeError.\<close>

datatype js_exn = TypeError

fun call_trim :: "jsval \<Rightarrow> js_exn + string" where
  "call_trim (Str s) = Inr (js_trim s)"
| "call_trim v = Inl TypeError"

section \<open>The store\<close>

text \<open>
  The five tables of \<open>initializeDatabase\<close>, of which the routes below use four. A table is
  the list of its rows in insertion order. \<open>AUTOINCREMENT\<close> keeps, for each table, the
  largest row id ever given. \<open>created_at\<close> is the text of \<open>CURRENT_TIMESTAMP\<close>,
  \<open>YYYY-MM-DD HH:MM:SS\<close>, which \<open>datetime()\<close> returns unchanged; it is held as the
  number of seconds it denotes, read from the clock of the store.
\<close>

record plugin_row =
  p_id :: nat
  p_name :: string
  p_author :: string
  p_version :: string
  p_rating :: jsnum

record issue_row =
  i_id :: nat
  i_title :: string
  i_severity :: string
  i_status :: string
  i_created_at :: nat

record database =
  plugins :: "plugin_row list"
  plugins_seq :: nat
  tags :: "(nat \<times> string) list"
  tags_seq :: nat
  plugin_tags :: "(nat \<times> nat) list"
  issues :: "issue_row list"
  issues_seq :: nat
  clock :: nat

datatype sql_error = Constraint string

text \<open>The row id of an insert into an \<open>AUTOINCREMENT\<close> table: one more than the largest
  id the table has or ever had.\<close>

definition next_rowid :: "nat \<Rightarrow> nat list \<Rightarrow> nat" where
  "next_rowid sq ids = Suc (fold max ids sq)"

text \<open>\<open>INSERT INTO plugins (name, author, version, rating) VALUES (?, ?, ?, ?)\<close>; a NaN is
  bound as NULL, which \<open>rating REAL NOT NULL\<close> refuses. The result carries \<open>this.lastID\<close>.\<close>

definition insert_plugin ::
  "string \<Rightarrow> string \<Rightarrow> string \<Rightarrow> jsnum \<Rightarrow> database \<Rightarrow> sql_error + (nat \<times> database)" where
  "insert_plugin n a v r d =
     (if r = NaN then Inl (Constraint ''NOT NULL constraint failed: plugins.rating'')
      else let i = next_rowid (plugins_seq d) (map p_id (plugins d)) in
        Inr (i, d\<lparr>plugins := plugins d @
                     [\<lparr>p_id = i, p_name = n, p_author = a, p_version = v, p_rating = r\<rparr>],
                   plugins_seq := i\<rparr>))"

text \<open>\<open>SELECT id FROM tags WHERE name = ?\<close>, read with \<open>db.get\<close>: the first matching row.\<close>

definition select_tag_id :: "string \<Rightarrow> database \<Rightarrow> sql_error + nat option" where
  "select_tag_id n d = Inr (map_option fst (find (\<lambda>row. snd row = n) (tags d)))"

text \<open>\<open>INSERT INTO tags (name) VALUES (?)\<close> under \<open>name TEXT NOT NULL UNIQUE\<close>.\<close>

definition insert_tag :: "string \<Rightarrow> database \<Rightarrow> sql_error + (nat \<times> database)" where
  "insert_tag n d =
     (if n \<in> snd ` set (tags d) then Inl (Constraint ''UNIQUE constraint failed: tags.name'')
      else let i = next_rowid (tags_seq d) (map fst (tags d)) in
        Inr (i, d\<lparr>tags := tags d @ [(i, n)], tags_seq := i\<rparr>))"

text \<open>\<open>INSERT OR IGNORE INTO plugin_tags (plugin_id, tag_id) VALUES (?, ?)\<close> under
  \<open>PRIMARY KEY (plugin_id, tag_id)\<close>.\<close>

definition insert_or_ignore_link :: "nat \<Rightarrow> nat \<Rightarrow> database \<Rightarrow> sql_error + database" where
  "insert_or_ignore_link p t d =
     Inr (if (p, t) \<in> set (plugin_tags d) then d
          else d\<lparr>plugin_tags := plugin_tags d @ [(p, t)]\<rparr>)"

text \<open>The order of the REAL column: NULL first, then minus infinity, the finite values,
  plus infinity.\<close>

fun rating_key :: "jsnum \<Rightarrow> int \<times> rat" where
  "rating_key NaN = (-2, 0)"
| "rating_key NegInf = (-1, 0)"
| "rating_key (Fin x) = (0, x)"
| "rating_key PosInf = (1, 0)"

definition rating_desc :: "jsnum \<Rightarrow> int \<times> rat" where
  "rating_desc r = (- fst (rating_key r), - snd (rating_key r))"

text \<open>\<open>SELECT * FROM plugins ORDER BY rating DESC, name ASC\<close>. Names are compared byte by
  byte. Rows equal in both columns come in an order the query does not fix; the model
  keeps their insertion order.\<close>

definition select_plugins :: "database \<Rightarrow> sql_error + plugin_row list" where
  "select_plugins d = Inr (sort_key (\<lambda>r. (rating_desc (p_rating r), p_name r)) (plugins d))"

text \<open>\<open>INSERT INTO issues (title, severity, status) VALUES (?, ?, ?)\<close>: the three columns
  are \<open>NOT NULL\<close>, and \<open>created_at\<close> takes its default.\<close>

definition insert_issue ::
  "string option \<Rightarrow> string option \<Rightarrow> string option \<Rightarrow> database \<Rightarrow> sql_error + (nat \<times> database)" where
  "insert_issue t sv st d =
     (case (t, sv, st) of
        (Some t', Some sv', Some st') \<Rightarrow>
          let i = next_rowid (issues_seq d) (map i_id (issues d)) in
            Inr (i, d\<lparr>issues := issues d @
                         [\<lparr>i_id = i, i_title = t', i_severity = sv', i_status = st',
                           i_created_at = clock d\<rparr>],
                       issues_seq := i\<rparr>)
      | _ \<Rightarrow> Inl (Constraint ''NOT NULL constraint failed: issues''))"

text \<open>\<open>SELECT * FROM issues WHERE id = ?\<close>, read with \<open>db.get\<close>.\<close>

definition select_issue :: "nat \<Rightarrow> database \<Rightarrow> sql_error + issue_row option" where
  "select_issue i d = Inr (find (\<lambda>r. i_id r = i) (issues d))"

text \<open>\<open>column = ?\<close> with the bound parameter; a comparison with NULL holds for no row.\<close>

fun sql_eq :: "string \<Rightarrow> string option \<Rightarrow> bool" where
  "sql_eq c None = False"
| "sql_eq c (Some x) = (c = x)"

text \<open>\<open>SELECT * FROM issues WHERE 1=1 [AND severity = ?] [AND status = ?]
  ORDER BY datetime(created_at) DESC\<close>; a filter that the handler left out is \<open>None\<close>,
  a filter that it added carries the bound parameter.\<close>

definition select_issues ::
  "string option option \<Rightarrow> string option option \<Rightarrow> database \<Rightarrow> sql_error + issue_row list" where
  "select_issues sv st d =
     Inr (sort_key (\<lambda>r. - int (i_created_at r))
            (filter (\<lambda>r. (case sv of None \<Rightarrow> True | Some x \<Rightarrow> sql_eq (i_severity r) x) \<and>
                         (case st of None \<Rightarrow> True | Some x \<Rightarrow> sql_eq (i_status r) x))
               (issues d)))"

section \<open>The server\<close>

text \<open>
  A call of \<open>db.get\<close>, \<open>db.run\<close> or \<open>db.all\<close> only hands a statement to the store; the
  handler goes on, and the callback runs later, when the statement has been executed.
  The state of the server while it handles one request is therefore the store, the
  statements handed over and not yet executed, the counter \<open>pending\<close> of the handler, the
  responses written so far and the lines of \<open>console.error\<close>.

  A statement in flight carries what its callback closes over. \<open>ensureTagExists\<close> has one
  caller, the tag loop of \<open>POST /api/plugins\<close>, so its callback is that loop's closure and
  is identified by the plugin id.

  Callbacks run one at a time and never read the store: they hand over further statements,
  count and respond. A statement and its callback are therefore taken as one step; letting
  the callback wait would only delay the statements it hands over, and every order of
  statements that arises so also arises from a schedule of steps. The store fails a
  statement only where the schema refuses it; the error branches of the callbacks are
  kept as the code has them.
\<close>

datatype resp_body =
    ErrorMsg string
  | PluginAdded string nat
  | PluginRows "plugin_row list"
  | IssueRows "issue_row list"
  | IssueRow "issue_row option"
  | Uncaught js_exn

datatype response = Response nat resp_body

datatype op =
    InsertPlugin string string string jsnum "string list"
  | FindTag nat string
  | InsertTag nat string
  | LinkRow nat nat

record server =
  db :: database
  queue :: "op list"
  pending :: int
  sent :: "response list"
  console :: "string list"

definition respond :: "response \<Rightarrow> server \<Rightarrow> server" where
  "respond r s = s\<lparr>sent := sent s @ [r]\<rparr>"

definition console_error :: "string \<Rightarrow> server \<Rightarrow> server" where
  "console_error m s = s\<lparr>console := console s @ [m]\<rparr>"

definition hand_over :: "op \<Rightarrow> server \<Rightarrow> server" where
  "hand_over x s = s\<lparr>queue := queue s @ [x]\<rparr>"

text \<open>\<open>linkPluginTag(pluginId, tagId)\<close>: nothing for an id that is not truthy; otherwise the
  insert is handed to the store, and its callback only logs.\<close>

definition linkPluginTag :: "nat \<Rightarrow> nat \<Rightarrow> server \<Rightarrow> server" where
  "linkPluginTag pluginId tagId s =
     (if pluginId = 0 \<or> tagId = 0 then s else hand_over (LinkRow pluginId tagId) s)"

text \<open>The callback that the tag loop gives to \<open>ensureTagExists\<close>; \<open>None\<close> is \<open>null\<close>.\<close>

definition tag_callback :: "nat \<Rightarrow> nat option \<Rightarrow> server \<Rightarrow> server" where
  "tag_callback pluginId tagId s =
     (let s1 = (case tagId of
                  None \<Rightarrow> s
                | Some t \<Rightarrow> if t \<noteq> 0 then linkPluginTag pluginId t s else s);
          s2 = s1\<lparr>pending := pending s1 - 1\<rparr>
      in if pending s2 = 0
         then respond (Response 201 (PluginAdded ''Plugin successfully added'' pluginId)) s2
         else s2)"

text \<open>\<open>ensureTagExists(tagName, callback)\<close> up to its first \<open>db.get\<close>.\<close>

definition ensureTagExists :: "string \<Rightarrow> nat \<Rightarrow> server \<Rightarrow> server" where
  "ensureTagExists tagName pluginId s =
     (let trimmed = js_trim tagName in
      if trimmed = [] then tag_callback pluginId None s
      else hand_over (FindTag pluginId trimmed) s)"

text \<open>The callback of the \<open>INSERT\<close> in \<open>ensureTagExists\<close>: what it passes to the
  callback of the resolver, \<open>null\<close> after logging an error, or \<open>this.lastID\<close>.\<close>

definition tag_inserted :: "string \<Rightarrow> server \<Rightarrow> nat option \<times> server" where
  "tag_inserted trimmed s =
     (case insert_tag trimmed (db s) of
        Inl err \<Rightarrow> (None, console_error '' Error inserting tag:'' s)
      | Inr (i, d) \<Rightarrow> (Some i, s\<lparr>db := d\<rparr>))"

text \<open>The store executes one statement and the callback of that statement runs.\<close>

fun exec :: "op \<Rightarrow> server \<Rightarrow> server" where
  "exec (FindTag pluginId trimmed) s =
     (case select_tag_id trimmed (db s) of
        Inl err \<Rightarrow> tag_callback pluginId None (console_error '' Error checking tag:'' s)
      | Inr (Some i) \<Rightarrow> tag_callback pluginId (Some i) s
      | Inr None \<Rightarrow> hand_over (InsertTag pluginId trimmed) s)"
| "exec (InsertTag pluginId trimmed) s =
     (case tag_inserted trimmed s of (tagId, s') \<Rightarrow> tag_callback pluginId tagId s')"
| "exec (LinkRow p t) s =
     (case insert_or_ignore_link p t (db s) of
        Inl err \<Rightarrow> console_error '' Error linking plugin and tag:'' s
      | Inr d \<Rightarrow> s\<lparr>db := d\<rparr>)"
| "exec (InsertPlugin n a v r tagList) s =
     (case insert_plugin n a v r (db s) of
        Inl err \<Rightarrow> respond (Response 500 (ErrorMsg ''Failed to add plugin''))
                     (console_error ''Insertion error (plugin): '' s)
      | Inr (pluginId, d) \<Rightarrow>
          if tagList = []
          then respond (Response 201 (PluginAdded ''Plugin successfully added (no tags).'' pluginId))
                 (s\<lparr>db := d\<rparr>)
          else fold (\<lambda>tagName. ensureTagExists tagName pluginId) tagList
                 (s\<lparr>db := d, pending := int (length tagList)\<rparr>))"

text \<open>The store picks any statement in flight; \<open>step i\<close> executes the one at position \<open>i\<close>.
  A schedule is the list of the positions picked.\<close>

definition step :: "nat \<Rightarrow> server \<Rightarrow> server" where
  "step i s =
     (if i < length (queue s)
      then exec (queue s ! i) (s\<lparr>queue := take i (queue s) @ drop (Suc i) (queue s)\<rparr>)
      else s)"

definition run :: "nat list \<Rightarrow> server \<Rightarrow> server" where
  "run sched s = fold step sched s"

text \<open>The server between requests, on a given store.\<close>

definition idle :: "database \<Rightarrow> server" where
  "idle d = \<lparr>db = d, queue = [], pending = 0, sent = [], console = []\<rparr>"

subsection \<open>POST /api/plugins\<close>

text \<open>The tags of the body as a list of strings; anything that is not an array is the
  empty list.\<close>

definition normalize_tags :: "js_env \<Rightarrow> jsval \<Rightarrow> string list" where
  "normalize_tags env tags' = (case tags' of Arr ts \<Rightarrow> map (js_String env) ts | _ \<Rightarrow> [])"

text \<open>The handler up to its \<open>db.run\<close>. An exception thrown by \<open>trim\<close> leaves the handler;
  Express answers it with status 500.\<close>

definition post_plugins :: "js_env \<Rightarrow> body \<Rightarrow> server \<Rightarrow> server" where
  "post_plugins env b s =
     (let name = field b ''name''; author = field b ''author''; version = field b ''version'';
          rating = field b ''rating''; tags' = field b ''tags''
      in if \<not> truthy name \<or> \<not> truthy author \<or> \<not> truthy version
            \<or> rating = Null \<or> rating = Undefined
         then respond (Response 400
                (ErrorMsg ''Please provide name, author, version, and rating.'')) s
         else let numericRating = js_Number env rating in
           if numericRating = NaN \<or> num_lt numericRating 0 \<or> num_gt numericRating 5
           then respond (Response 400 (ErrorMsg ''Rating must be a number between 0 and 5.'')) s
           else let tagList = normalize_tags env tags'
             in case call_trim name of
                  Inl e \<Rightarrow> respond (Response 500 (Uncaught e)) s
                | Inr n \<Rightarrow>
                   (case call_trim author of
                      Inl e \<Rightarrow> respond (Response 500 (Uncaught e)) s
                    | Inr a \<Rightarrow>
                       (case call_trim version of
                          Inl e \<Rightarrow> respond (Response 500 (Uncaught e)) s
                        | Inr v \<Rightarrow> hand_over (InsertPlugin n a v numericRating tagList) s)))"

subsection \<open>GET /api/plugins\<close>

definition get_plugins :: "server \<Rightarrow> server" where
  "get_plugins s =
     (case select_plugins (db s) of
        Inl err \<Rightarrow> respond (Response 500 (ErrorMsg ''Failed to fetch plugins''))
                     (console_error ''Database error (plugins): '' s)
      | Inr rows \<Rightarrow> respond (Response 200 (PluginRows rows)) s)"

subsection \<open>GET /api/issues\<close>

text \<open>What the binding stores for a parameter of a statement.\<close>

definition bind_text :: "js_env \<Rightarrow> jsval \<Rightarrow> string option" where
  "bind_text env v = (case v of Str x \<Rightarrow> Some x | Null \<Rightarrow> None | _ \<Rightarrow> bind_other env v)"

text \<open>\<open>req.query\<close> as Express parses it: a parameter that occurs once is a string, a
  repeated one an array, a bracketed one an object; an absent one is \<open>undefined\<close>. The
  handler adds a filter for every truthy value and pushes the value itself as the
  parameter.\<close>

type_synonym query = "(string \<times> jsval) list"

definition get_issues :: "js_env \<Rightarrow> query \<Rightarrow> server \<Rightarrow> server" where
  "get_issues env q s =
     (let severity = field q ''severity''; status = field q ''status'';
          sv = (if truthy severity then Some (bind_text env severity) else None);
          st = (if truthy status then Some (bind_text env status) else None)
      in case select_issues sv st (db s) of
           Inl err \<Rightarrow> respond (Response 500 (ErrorMsg ''Failed to fetch issues''))
                        (console_error ''Database error (issues): '' s)
         | Inr rows \<Rightarrow> respond (Response 200 (IssueRows rows)) s)"

subsection \<open>POST /api/issues\<close>

text \<open>A destructuring default applies to a property that is \<open>undefined\<close>.\<close>

definition with_default :: "jsval \<Rightarrow> string \<Rightarrow> jsval" where
  "with_default v dflt = (if v = Undefined then Str dflt else v)"

text \<open>The insert and the select of the new row follow one another, each in the callback
  of the one before; no other statement of the request is in flight meanwhile.\<close>

definition post_issues :: "js_env \<Rightarrow> body \<Rightarrow> server \<Rightarrow> server" where
  "post_issues env b s =
     (let title = field b ''title'';
          severity = with_default (field b ''severity'') ''low'';
          status = with_default (field b ''status'') ''open''
      in if \<not> truthy title
         then respond (Response 400 (ErrorMsg ''Please provide a title for the issue.'')) s
         else case call_trim title of
                Inl e \<Rightarrow> respond (Response 500 (Uncaught e)) s
              | Inr t \<Rightarrow>
                 (case insert_issue (Some t) (bind_text env severity) (bind_text env status) (db s) of
                    Inl err \<Rightarrow> respond (Response 500 (ErrorMsg ''Failed to create issue''))
                                 (console_error ''Insertion error (issue): '' s)
                  | Inr (createdId, d) \<Rightarrow>
                     (case select_issue createdId d of
                        Inl err \<Rightarrow> respond (Response 500 (ErrorMsg ''Issue created but fetch failed''))
                                     (console_error ''Error fetching created issue:'' (s\<lparr>db := d\<rparr>))
                      | Inr row \<Rightarrow> respond (Response 201 (IssueRow row)) (s\<lparr>db := d\<rparr>))))"

text \<open>The row that \<open>POST /api/issues\<close> stores for a title, a severity and a status.\<close>

definition stored_issue :: "string \<Rightarrow> string \<Rightarrow> string \<Rightarrow> database \<Rightarrow> issue_row" where
  "stored_issue t sv st d =
     \<lparr>i_id = next_rowid (issues_seq d) (map i_id (issues d)), i_title = t, i_severity = sv,
      i_status = st, i_created_at = clock d\<rparr>"

text \<open>The state after \<open>POST /api/issues\<close> has stored a row and echoed it.\<close>

definition issue_stored :: "string \<Rightarrow> string \<Rightarrow> string \<Rightarrow> server \<Rightarrow> server" where
  "issue_stored t sv st s =
     respond (Response 201 (IssueRow (Some (stored_issue t sv st (db s)))))
       (s\<lparr>db := (db s)\<lparr>issues := issues (db s) @ [stored_issue t sv st (db s)],
                        issues_seq := i_id (stored_issue t sv st (db s))\<rparr>\<rparr>)"

text \<open>The row that \<open>POST /api/plugins\<close> stores.\<close>

definition stored_plugin :: "string \<Rightarrow> string \<Rightarrow> string \<Rightarrow> jsnum \<Rightarrow> database \<Rightarrow> plugin_row" where
  "stored_plugin n a v r d =
     \<lparr>p_id = next_rowid (plugins_seq d) (map p_id (plugins d)), p_name = n, p_author = a,
      p_version = v, p_rating = r\<rparr>"

text \<open>A rating that passes the check of the handler.\<close>

definition rating_ok :: "jsnum \<Rightarrow> bool" where
  "rating_ok r = (\<not> (r = NaN \<or> num_lt r 0 \<or> num_gt r 5))"

text \<open>The comparison of two values of the \<open>rating\<close> column.\<close>

definition rating_less :: "jsnum \<Rightarrow> jsnum \<Rightarrow> bool" where
  "rating_less a b = (rating_key a < rating_key b)"

subsection \<open>Invariants of the store and of the tag loop\<close>





subsection \<open>Plugin creation as a whole\<close>






definition created :: "js_env \<Rightarrow> body \<Rightarrow> nat list \<Rightarrow> database \<Rightarrow> database" where
  "created env b sched d = db (run sched (post_plugins env b (idle d)))"



subsection \<open>Several requests in flight\<close>





subsection \<open>Sample inputs\<close>

definition sample_env :: js_env where
  "sample_env = \<lparr>str_to_num = (\<lambda>s. NaN), num_to_str = (\<lambda>n. ''0''), bind_other = (\<lambda>v. None)\<rparr>"

definition empty_store :: database where
  "empty_store = \<lparr>plugins = [], plugins_seq = 0, tags = [], tags_seq = 0, plugin_tags = [],
                   issues = [], issues_seq = 0, clock = 1700000000\<rparr>"

definition three_plugins :: database where
  "three_plugins = empty_store\<lparr>plugins :=
     [\<lparr>p_id = 1, p_name = ''zip'', p_author = ''A'', p_version = ''1'', p_rating = Fin 4\<rparr>,
      \<lparr>p_id = 2, p_name = ''lint'', p_author = ''B'', p_version = ''2'', p_rating = Fin (9 / 2)\<rparr>,
      \<lparr>p_id = 3, p_name = ''ace'', p_author = ''C'', p_version = ''3'', p_rating = Fin 4\<rparr>],
     plugins_seq := 3\<rparr>"

definition two_issues :: database where
  "two_issues = empty_store\<lparr>issues :=
     [\<lparr>i_id = 1, i_title = ''Crash'', i_severity = ''high'', i_status = ''open'',
       i_created_at = 1600000000\<rparr>,
      \<lparr>i_id = 2, i_title = ''Typo'', i_severity = ''low'', i_status = ''open'',
       i_created_at = 1650000000\<rparr>],
     issues_seq := 2\<rparr>"

definition one_tag_request :: body where
  "one_tag_request = [(''name'', Str ''Linter''), (''author'', Str ''Ada''),
     (''version'', Str ''1.0.0''), (''rating'', Num (Fin 4)), (''tags'', Arr [Str ''ui''])]"

definition twice_tag_request :: body where
  "twice_tag_request = [(''name'', Str ''Linter''), (''author'', Str ''Ada''),
     (''version'', Str ''1.0.0''), (''rating'', Num (Fin 4)), (''tags'', Arr [Str ''ui'', Str ''ui''])]"



section \<open>Properties\<close>

declare strip_front.simps [simp del]

subsection \<open>Row ids\<close>

lemma fold_max_ge_init: "sq \<le> fold max ids (sq::nat)"
  by (induction ids arbitrary: sq) (auto intro: order_trans [OF max.cobounded2])

lemma fold_max_ge_mem: "x \<in> set ids \<Longrightarrow> x \<le> fold max ids (sq::nat)"
proof (induction ids arbitrary: sq)
  case Nil
  then show ?case by simp
next
  case (Cons a ids)
  show ?case
  proof (cases "x = a")
    case True
    have "a \<le> max a sq" by simp
    also have "\<dots> \<le> fold max ids (max a sq)" by (rule fold_max_ge_init)
    finally show ?thesis using True by simp
  next
    case False
    with Cons show ?thesis by simp
  qed
qed

lemma next_rowid_fresh: "next_rowid sq ids \<notin> set ids"
  using fold_max_ge_mem [of "next_rowid sq ids" ids sq] by (auto simp: next_rowid_def)


subsection \<open>Trimming a string of white space\<close>

lemma ws_tokens_nonempty: "t \<in> set ws_tokens \<Longrightarrow> t \<noteq> []"
  by (auto simp: ws_tokens_def)

lemma ws_head_token: "w \<in> set ws_tokens \<Longrightarrow> ws_head ws_tokens (w @ r) = length w"
  unfolding ws_tokens_def ws_head_def
  apply (simp only: set_simps insert_iff empty_iff)
  apply (elim disjE FalseE)
  apply simp_all
  done

lemma strip_front_Nil: "strip_front toks [] = []"
  by (subst strip_front.simps) simp

lemma strip_front_concat:
  "set ws \<subseteq> set ws_tokens \<Longrightarrow> strip_front ws_tokens (concat ws) = []"
proof (induction ws)
  case Nil
  then show ?case by (simp add: strip_front_Nil)
next
  case (Cons w ws)
  then have w: "w \<in> set ws_tokens" by simp
  have "strip_front ws_tokens (w @ concat ws) = strip_front ws_tokens (concat ws)"
    using ws_head_token [OF w, of "concat ws"] ws_tokens_nonempty [OF w]
    by (subst strip_front.simps) simp
  with Cons show ?case by simp
qed

lemma js_trim_whitespace: "set ws \<subseteq> set ws_tokens \<Longrightarrow> js_trim (concat ws) = []"
  by (simp add: js_trim_def trimStart_def trimEnd_def strip_front_concat strip_front_Nil)

subsection \<open>POST /api/issues\<close>

lemma find_fresh_issue:
  "i \<notin> set (map i_id rows) \<Longrightarrow> i_id r = i \<Longrightarrow> find (\<lambda>x. i_id x = i) (rows @ [r]) = Some r"
  by (induction rows) auto

lemma select_stored_issue:
  "find (\<lambda>x. i_id x = next_rowid (issues_seq d) (map i_id (issues d)))
     (issues d @ [stored_issue t sv st d]) = Some (stored_issue t sv st d)"
  by (rule find_fresh_issue) (simp_all only: next_rowid_fresh not_False_eq_True stored_issue_def issue_row.simps)

lemma post_issues_stored:
  assumes "field b ''title'' = Str t" and "t \<noteq> []"
    and "bind_text env (with_default (field b ''severity'') ''low'') = Some sv"
    and "bind_text env (with_default (field b ''status'') ''open'') = Some st"
  shows "post_issues env b s = issue_stored (js_trim t) sv st s"
  using assms select_stored_issue [of "db s" "js_trim t" sv st]
  by (simp add: post_issues_def insert_issue_def select_issue_def Let_def issue_stored_def)
     (simp add: stored_issue_def)

lemma post_issues_cases:
  "(\<not> truthy (field b ''title'') \<and>
      post_issues env b s = respond (Response 400 (ErrorMsg ''Please provide a title for the issue.'')) s)
   \<or> post_issues env b s = respond (Response 500 (Uncaught TypeError)) s
   \<or> post_issues env b s = respond (Response 500 (ErrorMsg ''Failed to create issue''))
                               (console_error ''Insertion error (issue): '' s)
   \<or> (\<exists>t sv st. post_issues env b s = issue_stored t sv st s)"
proof (cases "truthy (field b ''title'')")
  case False
  then show ?thesis by (simp add: post_issues_def Let_def)
next
  case True
  show ?thesis
  proof (cases "field b ''title''")
    case (Str t)
    with True have t: "t \<noteq> []" by simp
    show ?thesis
    proof (cases "bind_text env (with_default (field b ''severity'') ''low'')")
      case None
      with Str t show ?thesis by (simp add: post_issues_def insert_issue_def Let_def)
    next
      case sv: (Some sv)
      show ?thesis
      proof (cases "bind_text env (with_default (field b ''status'') ''open'')")
        case None
        with Str t sv show ?thesis by (simp add: post_issues_def insert_issue_def Let_def)
      next
        case (Some st)
        from post_issues_stored [OF Str t sv Some] show ?thesis by blast
      qed
    qed
  qed (use True in \<open>simp_all add: post_issues_def Let_def\<close>)
qed


lemma sent_respond: "sent (respond r s) = sent s @ [r]"
  by (simp add: respond_def)

lemma db_respond: "db (respond r s) = db s"
  by (simp add: respond_def)

lemma db_console_error: "db (console_error m s) = db s"
  by (simp add: console_error_def)

lemma sent_console_error: "sent (console_error m s) = sent s"
  by (simp add: console_error_def)

lemma sent_issue_stored:
  "sent (issue_stored t sv st s) = sent s @ [Response 201 (IssueRow (Some (stored_issue t sv st (db s))))]"
  by (simp add: issue_stored_def respond_def)

lemma issues_issue_stored:
  "issues (db (issue_stored t sv st s)) = issues (db s) @ [stored_issue t sv st (db s)]"
  by (simp add: issue_stored_def respond_def)

lemma post_issues_not_stored:
  assumes "field b ''title'' = Str t" and "t \<noteq> []"
    and "bind_text env (with_default (field b ''severity'') ''low'') = None
         \<or> bind_text env (with_default (field b ''status'') ''open'') = None"
  shows "post_issues env b s = respond (Response 500 (ErrorMsg ''Failed to create issue''))
                                 (console_error ''Insertion error (issue): '' s)"
  using assms
  by (auto simp: post_issues_def insert_issue_def Let_def split: option.splits)

text \<open>
  C10, as stated: every request whose title consists of white space only has its row
  inserted with the empty title. It fails for the body
  \<open>{"title": "   ", "severity": null}\<close>: the title passes the presence check, the
  destructuring default does not apply to \<open>null\<close>, the insert fails on the \<open>NOT NULL\<close>
  column, the response is 500 and no row is stored.
\<close>

theorem whitespace_title_null_severity_counterexample:
  "truthy (field [(''title'', Str ''   ''), (''severity'', Null)] ''title'')
   \<and> post_issues sample_env [(''title'', Str ''   ''), (''severity'', Null)] (idle empty_store) =
       respond (Response 500 (ErrorMsg ''Failed to create issue''))
         (console_error ''Insertion error (issue): '' (idle empty_store))
   \<and> issues (db (post_issues sample_env [(''title'', Str ''   ''), (''severity'', Null)]
        (idle empty_store))) = []"
  by (simp add: post_issues_def field_def with_default_def bind_text_def insert_issue_def
      respond_def console_error_def idle_def empty_store_def)

text \<open>
  C10, amended. A title that is not empty and consists of white-space characters only
  passes the presence check: the response is never a 400. What follows depends on severity
  and status. When each of them is absent or a string, the row is inserted with the trimmed
  title, the empty string, and echoed with status 201; so is it whenever the binding stores
  both as text (\<open>sv\<close> and \<open>st\<close>). When one of them is \<open>null\<close>, or is otherwise bound as
  NULL, the insert fails, the response is 500 and the store is unchanged.
\<close>

theorem whitespace_title_is_stored:
  assumes "field b ''title'' = Str (concat ws)" and "ws \<noteq> []" and "set ws \<subseteq> set ws_tokens"
  shows "(\<forall>m. Response 400 m \<notin> set (sent (post_issues env b (idle d)))) \<and>
         (bind_text env (with_default (field b ''severity'') ''low'') = Some sv \<longrightarrow>
          bind_text env (with_default (field b ''status'') ''open'') = Some st \<longrightarrow>
          post_issues env b (idle d) = issue_stored [] sv st (idle d) \<and>
          i_title (last (issues (db (post_issues env b (idle d))))) = []) \<and>
         ((field b ''severity'' = Undefined \<or> field b ''severity'' = Str x) \<and>
          (field b ''status'' = Undefined \<or> field b ''status'' = Str y) \<longrightarrow>
          post_issues env b (idle d) =
            issue_stored [] (if field b ''severity'' = Undefined then ''low'' else x)
              (if field b ''status'' = Undefined then ''open'' else y) (idle d) \<and>
          i_title (last (issues (db (post_issues env b (idle d))))) = []) \<and>
         (field b ''severity'' = Null \<or> field b ''status'' = Null
          \<or> bind_text env (with_default (field b ''severity'') ''low'') = None
          \<or> bind_text env (with_default (field b ''status'') ''open'') = None \<longrightarrow>
          post_issues env b (idle d) =
            respond (Response 500 (ErrorMsg ''Failed to create issue''))
              (console_error ''Insertion error (issue): '' (idle d)) \<and>
          db (post_issues env b (idle d)) = d)"
proof -
  from assms(2,3) have ne: "concat ws \<noteq> []"
    by (cases ws) (auto dest: ws_tokens_nonempty)
  have truthy: "truthy (field b ''title'')"
    using assms(1) ne by simp
  have no400: "Response 400 m \<notin> set (sent (post_issues env b (idle d)))" for m
    using post_issues_cases [where env = env and b = b and s = "idle d"] truthy
    by (auto simp: sent_respond sent_console_error sent_issue_stored idle_def)
  have stored: "post_issues env b (idle d) = issue_stored [] sv' st' (idle d)"
    if sv: "bind_text env (with_default (field b ''severity'') ''low'') = Some sv'"
      and st: "bind_text env (with_default (field b ''status'') ''open'') = Some st'"
    for sv' st'
    using post_issues_stored [OF assms(1) ne sv st] js_trim_whitespace [OF assms(3)] by simp
  have title: "i_title (last (issues (db (issue_stored [] sv' st' (idle d))))) = []" for sv' st'
    by (simp add: issues_issue_stored stored_issue_def)
  have 1: "bind_text env (with_default (field b ''severity'') ''low'') = Some sv \<longrightarrow>
          bind_text env (with_default (field b ''status'') ''open'') = Some st \<longrightarrow>
          post_issues env b (idle d) = issue_stored [] sv st (idle d) \<and>
          i_title (last (issues (db (post_issues env b (idle d))))) = []"
    using stored [of sv st] title [of sv st] by simp
  have 2: "post_issues env b (idle d) =
            issue_stored [] (if field b ''severity'' = Undefined then ''low'' else x)
              (if field b ''status'' = Undefined then ''open'' else y) (idle d) \<and>
          i_title (last (issues (db (post_issues env b (idle d))))) = []"
    if a: "(field b ''severity'' = Undefined \<or> field b ''severity'' = Str x) \<and>
          (field b ''status'' = Undefined \<or> field b ''status'' = Str y)"
  proof -
    let ?sv = "if field b ''severity'' = Undefined then ''low'' else x"
    let ?st = "if field b ''status'' = Undefined then ''open'' else y"
    from a have "bind_text env (with_default (field b ''severity'') ''low'') = Some ?sv"
      and "bind_text env (with_default (field b ''status'') ''open'') = Some ?st"
      by (auto simp: bind_text_def with_default_def)
    from stored [OF this] title [of ?sv ?st] show ?thesis by simp
  qed
  have 3: "post_issues env b (idle d) =
            respond (Response 500 (ErrorMsg ''Failed to create issue''))
              (console_error ''Insertion error (issue): '' (idle d)) \<and>
          db (post_issues env b (idle d)) = d"
    if a: "field b ''severity'' = Null \<or> field b ''status'' = Null
          \<or> bind_text env (with_default (field b ''severity'') ''low'') = None
          \<or> bind_text env (with_default (field b ''status'') ''open'') = None"
  proof -
    have n1: "bind_text env (with_default (field b ''severity'') ''low'') = None"
      if "field b ''severity'' = Null"
      using that by (simp add: bind_text_def with_default_def)
    have n2: "bind_text env (with_default (field b ''status'') ''open'') = None"
      if "field b ''status'' = Null"
      using that by (simp add: bind_text_def with_default_def)
    from a n1 n2 have "bind_text env (with_default (field b ''severity'') ''low'') = None
         \<or> bind_text env (with_default (field b ''status'') ''open'') = None"
      by (elim disjE) simp_all
    from post_issues_not_stored [OF assms(1) ne this] show ?thesis
      by (simp add: db_respond db_console_error idle_def)
  qed
  from no400 1 2 3 show ?thesis by blast
qed

theorem whitespace_title_is_stored_witness:
  "post_issues sample_env [(''title'', Str ''   '')] (idle empty_store) =
     issue_stored [] ''low'' ''open'' (idle empty_store)
   \<and> i_title (last (issues (db (post_issues sample_env [(''title'', Str ''   '')] (idle empty_store))))) = []
   \<and> post_issues sample_env [(''title'', Str ''   ''), (''status'', Null)] (idle empty_store) =
       respond (Response 500 (ErrorMsg ''Failed to create issue''))
         (console_error ''Insertion error (issue): '' (idle empty_store))
   \<and> db (post_issues sample_env [(''title'', Str ''   ''), (''status'', Null)] (idle empty_store)) =
       empty_store"
proof -
  have ws: "set ['' '', '' '', '' ''] \<subseteq> set ws_tokens"
    by (simp add: ws_tokens_def)
  note a = whitespace_title_is_stored [where b = "[(''title'', Str ''   '')]"
      and ws = "['' '', '' '', '' '']" and env = sample_env and sv = "''low''" and st = "''open''"
      and d = empty_store]
  note b = whitespace_title_is_stored [where b = "[(''title'', Str ''   ''), (''status'', Null)]"
      and ws = "['' '', '' '', '' '']" and env = sample_env and d = empty_store]
  have t1: "field [(''title'', Str ''   '')] ''title'' = Str (concat ['' '', '' '', '' ''])"
    and sv: "bind_text sample_env (with_default (field [(''title'', Str ''   '')] ''severity'') ''low'') =
        Some ''low''"
    and st: "bind_text sample_env (with_default (field [(''title'', Str ''   '')] ''status'') ''open'') =
        Some ''open''"
    by (simp_all add: field_def bind_text_def with_default_def)
  have t2: "field [(''title'', Str ''   ''), (''status'', Null)] ''title'' =
        Str (concat ['' '', '' '', '' ''])"
    and nl: "field [(''title'', Str ''   ''), (''status'', Null)] ''status'' = Null"
    by (simp_all add: field_def)
  from a t1 ws sv st have 1: "post_issues sample_env [(''title'', Str ''   '')] (idle empty_store) =
     issue_stored [] ''low'' ''open'' (idle empty_store)
   \<and> i_title (last (issues (db (post_issues sample_env [(''title'', Str ''   '')] (idle empty_store))))) = []"
    by blast
  from b t2 ws nl have 2: "post_issues sample_env [(''title'', Str ''   ''), (''status'', Null)] (idle empty_store) =
       respond (Response 500 (ErrorMsg ''Failed to create issue''))
         (console_error ''Insertion error (issue): '' (idle empty_store))
   \<and> db (post_issues sample_env [(''title'', Str ''   ''), (''status'', Null)] (idle empty_store)) =
       empty_store"
    by blast
  from 1 2 show ?thesis by blast
qed

lemma field_other_key: "k \<noteq> k' \<Longrightarrow> field ((k', v) # b) k = field b k"
  by (simp add: field_def)

lemma post_issues_ignores_created_at:
  "post_issues env ((''created_at'', v) # b) s = post_issues env b s"
  by (simp add: post_issues_def field_other_key)

lemma js_trim_sample_title: "js_trim ''Crash on open '' = ''Crash on open''"
  by code_simp

text \<open>
  C7. A request with a title (a non-empty string) and no severity and no status stores the
  row with severity "low" and status "open". For every request, a \<open>created_at\<close> of the
  body changes nothing, and a row that is stored carries the clock of the store. A 201
  response carries the stored row: the new last row of the table, with the id the store
  gave it and the time of the insert.
\<close>

theorem issue_defaults_and_timestamp:
  "(field b ''title'' = Str t \<longrightarrow> t \<noteq> [] \<longrightarrow>
      field b ''severity'' = Undefined \<longrightarrow> field b ''status'' = Undefined \<longrightarrow>
      post_issues env b s = issue_stored (js_trim t) ''low'' ''open'' s \<and>
      i_severity (last (issues (db (post_issues env b s)))) = ''low'' \<and>
      i_status (last (issues (db (post_issues env b s)))) = ''open'')
   \<and> post_issues env ((''created_at'', v) # b) s = post_issues env b s
   \<and> (issues (db (post_issues env b s)) = issues (db s) \<or>
        (\<exists>r. issues (db (post_issues env b s)) = issues (db s) @ [r] \<and>
             i_created_at r = clock (db s)))
   \<and> (\<forall>body. sent (post_issues env b s) = sent s @ [Response 201 body] \<longrightarrow>
        (\<exists>r. body = IssueRow (Some r) \<and>
             issues (db (post_issues env b s)) = issues (db s) @ [r] \<and>
             i_id r = next_rowid (issues_seq (db s)) (map i_id (issues (db s))) \<and>
             i_created_at r = clock (db s)))"
proof (intro conjI impI allI)
  assume t: "field b ''title'' = Str t" "t \<noteq> []"
    and u: "field b ''severity'' = Undefined" "field b ''status'' = Undefined"
  have sv: "bind_text env (with_default (field b ''severity'') ''low'') = Some ''low''"
    and st: "bind_text env (with_default (field b ''status'') ''open'') = Some ''open''"
    using u by (simp_all add: with_default_def bind_text_def)
  show eq: "post_issues env b s = issue_stored (js_trim t) ''low'' ''open'' s"
    by (rule post_issues_stored [OF t sv st])
  show "i_severity (last (issues (db (post_issues env b s)))) = ''low''"
    by (simp add: eq issues_issue_stored stored_issue_def)
  show "i_status (last (issues (db (post_issues env b s)))) = ''open''"
    by (simp add: eq issues_issue_stored stored_issue_def)
next
  show "post_issues env ((''created_at'', v) # b) s = post_issues env b s"
    by (rule post_issues_ignores_created_at)
next
  show "issues (db (post_issues env b s)) = issues (db s) \<or>
        (\<exists>r. issues (db (post_issues env b s)) = issues (db s) @ [r] \<and>
             i_created_at r = clock (db s))"
    using post_issues_cases [where env = env and b = b and s = s]
    by (auto simp: db_respond db_console_error issues_issue_stored stored_issue_def)
next
  fix body
  assume "sent (post_issues env b s) = sent s @ [Response 201 body]"
  then show "\<exists>r. body = IssueRow (Some r) \<and>
             issues (db (post_issues env b s)) = issues (db s) @ [r] \<and>
             i_id r = next_rowid (issues_seq (db s)) (map i_id (issues (db s))) \<and>
             i_created_at r = clock (db s)"
    using post_issues_cases [where env = env and b = b and s = s]
    by (auto simp: sent_respond sent_console_error sent_issue_stored issues_issue_stored
        stored_issue_def)
qed

theorem issue_defaults_and_timestamp_witness:
  "post_issues sample_env [(''title'', Str ''Crash on open '')] (idle empty_store) =
     issue_stored ''Crash on open'' ''low'' ''open'' (idle empty_store) \<and>
   post_issues sample_env [(''created_at'', Str ''1999-01-01 00:00:00''), (''title'', Str ''Crash on open '')]
     (idle empty_store) =
     issue_stored ''Crash on open'' ''low'' ''open'' (idle empty_store) \<and>
   sent (issue_stored ''Crash on open'' ''low'' ''open'' (idle empty_store)) =
     [Response 201 (IssueRow (Some \<lparr>i_id = 1, i_title = ''Crash on open'', i_severity = ''low'',
        i_status = ''open'', i_created_at = 1700000000\<rparr>))]"
  using issue_defaults_and_timestamp [where b = "[(''title'', Str ''Crash on open '')]"
      and t = "''Crash on open ''" and env = sample_env and s = "idle empty_store"
      and v = "Str ''1999-01-01 00:00:00''"]
  by (simp add: field_def js_trim_sample_title sent_issue_stored stored_issue_def idle_def
      empty_store_def next_rowid_def)

subsection \<open>POST /api/plugins: validation\<close>

lemma run_Nil: "run [] s = s"
  by (simp add: run_def)

lemma run_Cons: "run (i # sched) s = run sched (step i s)"
  by (simp add: run_def)

lemma run_append: "run (xs @ ys) s = run ys (run xs s)"
  by (simp add: run_def)

lemma step_no_queue: "queue s = [] \<Longrightarrow> step i s = s"
  by (simp add: step_def)

lemma run_no_queue: "queue s = [] \<Longrightarrow> run sched s = s"
  by (induction sched) (simp_all add: run_Nil run_Cons step_no_queue)

lemma queue_respond: "queue (respond r s) = queue s"
  by (simp add: respond_def)



lemma post_plugins_accepts:
  assumes "field b ''name'' = Str n" "n \<noteq> []" "field b ''author'' = Str a" "a \<noteq> []"
    and "field b ''version'' = Str v" "v \<noteq> []"
    and "field b ''rating'' \<noteq> Null" "field b ''rating'' \<noteq> Undefined"
    and "rating_ok (js_Number env (field b ''rating''))"
  shows "post_plugins env b s =
           hand_over (InsertPlugin (js_trim n) (js_trim a) (js_trim v)
                        (js_Number env (field b ''rating''))
                        (normalize_tags env (field b ''tags''))) s"
  using assms by (simp add: post_plugins_def Let_def rating_ok_def)

lemma insert_plugin_ok:
  "r \<noteq> NaN \<Longrightarrow> insert_plugin n a v r d =
     Inr (p_id (stored_plugin n a v r d),
          d\<lparr>plugins := plugins d @ [stored_plugin n a v r d],
            plugins_seq := p_id (stored_plugin n a v r d)\<rparr>)"
  by (simp add: insert_plugin_def stored_plugin_def Let_def)

lemma idle_sel:
  "db (idle d) = d" "queue (idle d) = []" "pending (idle d) = 0" "sent (idle d) = []"
  "console (idle d) = []"
  by (simp_all add: idle_def)


lemma step_insert_plugin_no_tags:
  assumes "r \<noteq> NaN"
  shows "step 0 (hand_over (InsertPlugin n a v r []) (idle d)) =
     respond (Response 201 (PluginAdded ''Plugin successfully added (no tags).''
                (p_id (stored_plugin n a v r d))))
       (idle (d\<lparr>plugins := plugins d @ [stored_plugin n a v r d],
                plugins_seq := p_id (stored_plugin n a v r d)\<rparr>))"
  using assms by (simp add: step_def hand_over_def idle_def insert_plugin_ok respond_def)






lemma rating_ok_not_NaN: "rating_ok r \<Longrightarrow> r \<noteq> NaN"
  by (auto simp: rating_ok_def)

lemma js_trim_samples:
  "js_trim ''Linter'' = ''Linter''" "js_trim ''Ada'' = ''Ada''" "js_trim ''1.0.0'' = ''1.0.0''"
  by code_simp+




lemma normalize_tags_non_array:
  "\<forall>ts. t \<noteq> Arr ts \<Longrightarrow> normalize_tags env t = []"
  by (cases t) (simp_all add: normalize_tags_def)

lemma post_plugins_tags_only_normalized:
  assumes "\<forall>k. k \<noteq> ''tags'' \<longrightarrow> field b' k = field b k"
    and "normalize_tags env (field b' ''tags'') = normalize_tags env (field b ''tags'')"
  shows "post_plugins env b' s = post_plugins env b s"
  using assms by (simp add: post_plugins_def Let_def)

text \<open>
  C9. When the \<open>tags\<close> field is present and is not an array, the request has the outcome
  of the same request without the field. When the request is valid besides (name, author
  and version non-empty strings, a rating that passes the check), the plugin row is
  stored, the tables \<open>tags\<close> and \<open>plugin_tags\<close> are unchanged, nothing more is handed to
  the store, and the callback of the plugin insert itself writes the 201 response.
\<close>

theorem non_array_tags_ignored:
  "field b ''tags'' \<noteq> Undefined \<and> (\<forall>ts. field b ''tags'' \<noteq> Arr ts) \<longrightarrow>
     (\<forall>b'. (\<forall>k. k \<noteq> ''tags'' \<longrightarrow> field b' k = field b k) \<and> field b' ''tags'' = Undefined
         \<longrightarrow> post_plugins env b (idle d) = post_plugins env b' (idle d))
     \<and> (field b ''name'' = Str n \<and> n \<noteq> [] \<and> field b ''author'' = Str a \<and> a \<noteq> []
        \<and> field b ''version'' = Str v \<and> v \<noteq> []
        \<and> field b ''rating'' \<noteq> Null \<and> field b ''rating'' \<noteq> Undefined
        \<and> rating_ok (js_Number env (field b ''rating''))
       \<longrightarrow> (let row = stored_plugin (js_trim n) (js_trim a) (js_trim v)
                         (js_Number env (field b ''rating'')) d;
                s' = run [0] (post_plugins env b (idle d))
            in plugins (db s') = plugins d @ [row]
             \<and> tags (db s') = tags d \<and> plugin_tags (db s') = plugin_tags d
             \<and> queue s' = []
             \<and> sent s' = [Response 201
                   (PluginAdded ''Plugin successfully added (no tags).'' (p_id row))]))"
proof (intro impI conjI allI)
  assume na: "field b ''tags'' \<noteq> Undefined \<and> (\<forall>ts. field b ''tags'' \<noteq> Arr ts)"
  then have nt: "normalize_tags env (field b ''tags'') = []"
    by (simp add: normalize_tags_non_array)
  {
    fix b'
    assume same: "(\<forall>k. k \<noteq> ''tags'' \<longrightarrow> field b' k = field b k) \<and> field b' ''tags'' = Undefined"
    then have "normalize_tags env (field b' ''tags'') = []"
      by (simp add: normalize_tags_def)
    with nt have "normalize_tags env (field b' ''tags'') = normalize_tags env (field b ''tags'')"
      by simp
    with same have "post_plugins env b' (idle d) = post_plugins env b (idle d)"
      by (intro post_plugins_tags_only_normalized) auto
    then show "post_plugins env b (idle d) = post_plugins env b' (idle d)" by simp
  }
  assume ok: "field b ''name'' = Str n \<and> n \<noteq> [] \<and> field b ''author'' = Str a \<and> a \<noteq> []
        \<and> field b ''version'' = Str v \<and> v \<noteq> []
        \<and> field b ''rating'' \<noteq> Null \<and> field b ''rating'' \<noteq> Undefined
        \<and> rating_ok (js_Number env (field b ''rating''))"
  let ?r = "js_Number env (field b ''rating'')"
  have eq: "post_plugins env b (idle d) =
      hand_over (InsertPlugin (js_trim n) (js_trim a) (js_trim v) ?r []) (idle d)"
    using post_plugins_accepts [where b = b and env = env and s = "idle d" and n = n and a = a and v = v]
      ok nt by auto
  have "?r \<noteq> NaN" using ok by (simp add: rating_ok_not_NaN)
  from step_insert_plugin_no_tags [OF this, of "js_trim n" "js_trim a" "js_trim v" d]
  show "let row = stored_plugin (js_trim n) (js_trim a) (js_trim v)
                         (js_Number env (field b ''rating'')) d;
                s' = run [0] (post_plugins env b (idle d))
            in plugins (db s') = plugins d @ [row]
             \<and> tags (db s') = tags d \<and> plugin_tags (db s') = plugin_tags d
             \<and> queue s' = []
             \<and> sent s' = [Response 201
                   (PluginAdded ''Plugin successfully added (no tags).'' (p_id row))]"
    by (simp add: eq run_Cons run_Nil Let_def db_respond sent_respond queue_respond idle_sel)
qed

theorem non_array_tags_ignored_witness:
  "post_plugins sample_env [(''name'', Str ''Linter''), (''author'', Str ''Ada''),
       (''version'', Str ''1.0.0''), (''rating'', Num (Fin 4)), (''tags'', Str ''ui'')]
       (idle empty_store) =
   post_plugins sample_env [(''name'', Str ''Linter''), (''author'', Str ''Ada''),
       (''version'', Str ''1.0.0''), (''rating'', Num (Fin 4))] (idle empty_store)
   \<and> tags (db (run [0] (post_plugins sample_env [(''name'', Str ''Linter''),
       (''author'', Str ''Ada''), (''version'', Str ''1.0.0''), (''rating'', Num (Fin 4)),
       (''tags'', Str ''ui'')] (idle empty_store)))) = []
   \<and> sent (run [0] (post_plugins sample_env [(''name'', Str ''Linter''),
       (''author'', Str ''Ada''), (''version'', Str ''1.0.0''), (''rating'', Num (Fin 4)),
       (''tags'', Str ''ui'')] (idle empty_store))) =
       [Response 201 (PluginAdded ''Plugin successfully added (no tags).'' 1)]"
proof -
  let ?b = "[(''name'', Str ''Linter''), (''author'', Str ''Ada''),
       (''version'', Str ''1.0.0''), (''rating'', Num (Fin 4)), (''tags'', Str ''ui'')]"
  let ?b' = "[(''name'', Str ''Linter''), (''author'', Str ''Ada''),
       (''version'', Str ''1.0.0''), (''rating'', Num (Fin 4))]"
  note th = non_array_tags_ignored [where b = ?b and env = sample_env and d = empty_store
      and n = "''Linter''" and a = "''Ada''" and v = "''1.0.0''"]
  have pre: "field ?b ''tags'' \<noteq> Undefined \<and> (\<forall>ts. field ?b ''tags'' \<noteq> Arr ts)"
    by (simp add: field_def)
  have same: "(\<forall>k. k \<noteq> ''tags'' \<longrightarrow> field ?b' k = field ?b k) \<and> field ?b' ''tags'' = Undefined"
    by (simp add: field_def)
  have ok: "field ?b ''name'' = Str ''Linter'' \<and> ''Linter'' \<noteq> [] \<and> field ?b ''author'' = Str ''Ada''
        \<and> ''Ada'' \<noteq> [] \<and> field ?b ''version'' = Str ''1.0.0'' \<and> ''1.0.0'' \<noteq> []
        \<and> field ?b ''rating'' \<noteq> Null \<and> field ?b ''rating'' \<noteq> Undefined
        \<and> rating_ok (js_Number sample_env (field ?b ''rating''))"
    by (simp add: field_def rating_ok_def)
  from th pre same have 1: "post_plugins sample_env ?b (idle empty_store) =
      post_plugins sample_env ?b' (idle empty_store)"
    by blast
  from th pre ok have 2: "let row = stored_plugin (js_trim ''Linter'') (js_trim ''Ada'') (js_trim ''1.0.0'')
                         (js_Number sample_env (field ?b ''rating'')) empty_store;
                s' = run [0] (post_plugins sample_env ?b (idle empty_store))
            in plugins (db s') = plugins empty_store @ [row]
             \<and> tags (db s') = tags empty_store \<and> plugin_tags (db s') = plugin_tags empty_store
             \<and> queue s' = []
             \<and> sent s' = [Response 201
                   (PluginAdded ''Plugin successfully added (no tags).'' (p_id row))]"
    by blast
  from 2 have 3: "tags (db (run [0] (post_plugins sample_env ?b (idle empty_store)))) = []"
    and 4: "sent (run [0] (post_plugins sample_env ?b (idle empty_store))) =
       [Response 201 (PluginAdded ''Plugin successfully added (no tags).'' 1)]"
    by (simp_all add: Let_def stored_plugin_def empty_store_def next_rowid_def)
  from 1 3 4 show ?thesis by blast
qed

subsection \<open>The linker\<close>

lemma step_link:
  "step 0 (hand_over (LinkRow p t) (idle d)) =
     idle (if (p, t) \<in> set (plugin_tags d) then d else d\<lparr>plugin_tags := plugin_tags d @ [(p, t)]\<rparr>)"
  by (simp add: step_def hand_over_def idle_def insert_or_ignore_link_def)

lemma linkPluginTag_falsy: "p = 0 \<or> t = 0 \<Longrightarrow> linkPluginTag p t s = s"
  by (auto simp: linkPluginTag_def)

lemma linkPluginTag_truthy:
  "p \<noteq> 0 \<Longrightarrow> t \<noteq> 0 \<Longrightarrow> linkPluginTag p t s = hand_over (LinkRow p t) s"
  by (simp add: linkPluginTag_def)

lemma step_link_twice:
  "run [0, 0] (hand_over (LinkRow p t) (hand_over (LinkRow p t) (idle d))) =
   run [0] (hand_over (LinkRow p t) (idle d))"
  by (simp add: run_def step_def hand_over_def idle_def insert_or_ignore_link_def)

text \<open>
  C4. The linker is not exported; its one caller, the tag loop, passes the row id of the
  plugin just inserted and the id of a tag row, and the store gives no row the id 0
  (\<open>next_rowid_pos\<close>). For every such pair of ids: linking a pair that is not present
  appends exactly that row; linking a pair that is present leaves the store as it is and
  logs no error; linking twice leaves the store that linking once leaves. The guard at the
  head of the linker, which no id given by the store meets, hands nothing to the store.
\<close>

theorem link_idempotent:
  "(p \<noteq> 0 \<and> t \<noteq> 0 \<and> (p, t) \<notin> set (plugin_tags d) \<longrightarrow>
      db (run [0] (linkPluginTag p t (idle d))) = d\<lparr>plugin_tags := plugin_tags d @ [(p, t)]\<rparr>)
   \<and> (p \<noteq> 0 \<and> t \<noteq> 0 \<and> (p, t) \<in> set (plugin_tags d) \<longrightarrow>
      db (run [0] (linkPluginTag p t (idle d))) = d
      \<and> console (run [0] (linkPluginTag p t (idle d))) = [])
   \<and> run [0, 0] (linkPluginTag p t (linkPluginTag p t (idle d))) =
       run [0] (linkPluginTag p t (idle d))
   \<and> (p = 0 \<or> t = 0 \<longrightarrow> linkPluginTag p t (idle d) = idle d)"
proof (intro conjI impI)
  assume "p \<noteq> 0 \<and> t \<noteq> 0 \<and> (p, t) \<notin> set (plugin_tags d)"
  then show "db (run [0] (linkPluginTag p t (idle d))) = d\<lparr>plugin_tags := plugin_tags d @ [(p, t)]\<rparr>"
    by (simp add: linkPluginTag_truthy run_Cons run_Nil step_link idle_sel)
next
  assume a: "p \<noteq> 0 \<and> t \<noteq> 0 \<and> (p, t) \<in> set (plugin_tags d)"
  then show "db (run [0] (linkPluginTag p t (idle d))) = d"
    by (simp add: linkPluginTag_truthy run_Cons run_Nil step_link idle_sel)
  from a show "console (run [0] (linkPluginTag p t (idle d))) = []"
    by (simp add: linkPluginTag_truthy run_Cons run_Nil step_link idle_sel)
next
  show "run [0, 0] (linkPluginTag p t (linkPluginTag p t (idle d))) =
       run [0] (linkPluginTag p t (idle d))"
  proof (cases "p = 0 \<or> t = 0")
    case True
    then show ?thesis
      by (simp add: linkPluginTag_falsy run_no_queue idle_sel)
  next
    case False
    then show ?thesis
      by (simp add: linkPluginTag_truthy step_link_twice)
  qed
next
  assume "p = 0 \<or> t = 0"
  then show "linkPluginTag p t (idle d) = idle d"
    by (rule linkPluginTag_falsy)
qed

theorem link_idempotent_witness:
  "plugin_tags (db (run [0] (linkPluginTag 1 2 (idle empty_store)))) = [(1, 2)]
   \<and> db (run [0] (linkPluginTag 1 2 (idle (empty_store\<lparr>plugin_tags := [(1, 2)]\<rparr>)))) =
       empty_store\<lparr>plugin_tags := [(1, 2)]\<rparr>
   \<and> linkPluginTag 0 2 (idle empty_store) = idle empty_store"
proof -
  have 1: "plugin_tags (db (run [0] (linkPluginTag 1 2 (idle empty_store)))) = [(1, 2)]"
    using link_idempotent [where p = 1 and t = 2 and d = empty_store]
    by (simp add: empty_store_def)
  have 2: "db (run [0] (linkPluginTag 1 2 (idle (empty_store\<lparr>plugin_tags := [(1, 2)]\<rparr>)))) =
       empty_store\<lparr>plugin_tags := [(1, 2)]\<rparr>"
    using link_idempotent [where p = 1 and t = 2 and d = "empty_store\<lparr>plugin_tags := [(1, 2)]\<rparr>"]
    by simp
  have 3: "linkPluginTag 0 2 (idle empty_store) = idle empty_store"
    using link_idempotent [where p = 0 and t = 2 and d = empty_store] by simp
  from 1 2 3 show ?thesis by blast
qed

subsection \<open>GET /api/plugins\<close>

lemma rating_less_Fin: "rating_less (Fin x) (Fin y) = (x < y)"
  by (simp add: rating_less_def)

lemma rating_key_inj: "rating_key a = rating_key b \<Longrightarrow> a = b"
  by (cases a; cases b) simp_all

lemma rating_desc_le:
  "(rating_desc a, n) \<le> (rating_desc b, m) \<longleftrightarrow> rating_less b a \<or> (a = b \<and> n \<le> m)"
proof -
  obtain i x where a: "rating_key a = (i, x)" by (cases "rating_key a")
  obtain j y where b: "rating_key b = (j, y)" by (cases "rating_key b")
  have "a = b \<longleftrightarrow> i = j \<and> x = y"
    using a b rating_key_inj [of a b] by auto
  then show ?thesis
    by (auto simp: rating_desc_def rating_less_def a b)
qed

text \<open>
  C8. \<open>GET /api/plugins\<close> answers 200 with all plugin rows, each as often as the table
  has it, in an order in which, of two rows at positions \<open>i < j\<close>, row \<open>i\<close> has the greater
  rating, or both have the same rating and the name of row \<open>i\<close> is not greater (bytewise)
  than the name of row \<open>j\<close>.
\<close>

theorem plugins_listed_by_rating_then_name:
  "\<exists>rows. get_plugins (idle d) = respond (Response 200 (PluginRows rows)) (idle d)
     \<and> mset rows = mset (plugins d)
     \<and> (\<forall>j < length rows. \<forall>i < j.
          rating_less (p_rating (rows ! j)) (p_rating (rows ! i))
          \<or> (p_rating (rows ! i) = p_rating (rows ! j) \<and> p_name (rows ! i) \<le> p_name (rows ! j)))"
proof -
  let ?key = "\<lambda>r. (rating_desc (p_rating r), p_name r)"
  let ?rows = "sort_key ?key (plugins d)"
  have eq: "get_plugins (idle d) = respond (Response 200 (PluginRows ?rows)) (idle d)"
    by (simp add: get_plugins_def select_plugins_def idle_sel)
  have srt: "sorted (map ?key ?rows)" by (rule sorted_sort_key)
  have ord: "rating_less (p_rating (?rows ! j)) (p_rating (?rows ! i))
          \<or> (p_rating (?rows ! i) = p_rating (?rows ! j) \<and> p_name (?rows ! i) \<le> p_name (?rows ! j))"
    if "j < length ?rows" "i < j" for i j
  proof -
    from that have "map ?key ?rows ! i \<le> map ?key ?rows ! j"
      using srt by (intro sorted_nth_mono) simp_all
    with that have "?key (?rows ! i) \<le> ?key (?rows ! j)" by simp
    then show ?thesis by (simp only: rating_desc_le)
  qed
  show ?thesis
    using eq ord by (intro exI [of _ ?rows]) (simp only: mset_sort, blast)
qed

theorem plugins_listed_by_rating_then_name_witness:
  "get_plugins (idle three_plugins) = respond (Response 200 (PluginRows
     [\<lparr>p_id = 2, p_name = ''lint'', p_author = ''B'', p_version = ''2'', p_rating = Fin (9 / 2)\<rparr>,
      \<lparr>p_id = 3, p_name = ''ace'', p_author = ''C'', p_version = ''3'', p_rating = Fin 4\<rparr>,
      \<lparr>p_id = 1, p_name = ''zip'', p_author = ''A'', p_version = ''1'', p_rating = Fin 4\<rparr>]))
     (idle three_plugins)
   \<and> (\<exists>rows. get_plugins (idle three_plugins) = respond (Response 200 (PluginRows rows)) (idle three_plugins)
        \<and> length rows = 3
        \<and> (rating_less (p_rating (rows ! 1)) (p_rating (rows ! 0))
            \<or> (p_rating (rows ! 0) = p_rating (rows ! 1) \<and> p_name (rows ! 0) \<le> p_name (rows ! 1))))"
proof -
  have 1: "get_plugins (idle three_plugins) = respond (Response 200 (PluginRows
     [\<lparr>p_id = 2, p_name = ''lint'', p_author = ''B'', p_version = ''2'', p_rating = Fin (9 / 2)\<rparr>,
      \<lparr>p_id = 3, p_name = ''ace'', p_author = ''C'', p_version = ''3'', p_rating = Fin 4\<rparr>,
      \<lparr>p_id = 1, p_name = ''zip'', p_author = ''A'', p_version = ''1'', p_rating = Fin 4\<rparr>]))
     (idle three_plugins)"
    by (simp add: get_plugins_def select_plugins_def idle_sel three_plugins_def empty_store_def
        rating_desc_def)
  from plugins_listed_by_rating_then_name [of three_plugins]
  obtain rows where r: "get_plugins (idle three_plugins) = respond (Response 200 (PluginRows rows)) (idle three_plugins)"
    "mset rows = mset (plugins three_plugins)"
    "\<forall>j < length rows. \<forall>i < j.
          rating_less (p_rating (rows ! j)) (p_rating (rows ! i))
          \<or> (p_rating (rows ! i) = p_rating (rows ! j) \<and> p_name (rows ! i) \<le> p_name (rows ! j))"
    by blast
  from r(2) have len: "length rows = 3"
    using mset_eq_length [of rows "plugins three_plugins"] by (simp add: three_plugins_def)
  with r(3) have "rating_less (p_rating (rows ! 1)) (p_rating (rows ! 0))
            \<or> (p_rating (rows ! 0) = p_rating (rows ! 1) \<and> p_name (rows ! 0) \<le> p_name (rows ! 1))"
    by auto
  with 1 r(1) len show ?thesis by blast
qed

subsection \<open>GET /api/issues\<close>

lemma select_issues_sorted:
  assumes "select_issues sv st d = Inr rows" and "j < length rows" and "i < j"
  shows "i_created_at (rows ! j) \<le> i_created_at (rows ! i)"
proof -
  let ?key = "\<lambda>r. - int (i_created_at r)"
  from assms(1) have "sorted (map ?key rows)"
    by (auto simp: select_issues_def)
  then have "map ?key rows ! i \<le> map ?key rows ! j"
    using assms(2,3) by (intro sorted_nth_mono) simp_all
  with assms(2,3) show ?thesis by simp
qed

lemma select_issues_mset:
  "select_issues sv st d = Inr rows \<Longrightarrow>
   mset rows = mset (filter (\<lambda>r. (case sv of None \<Rightarrow> True | Some x \<Rightarrow> sql_eq (i_severity r) x) \<and>
                         (case st of None \<Rightarrow> True | Some x \<Rightarrow> sql_eq (i_status r) x)) (issues d))"
  by (auto simp: select_issues_def)

lemma sql_eq_Some: "sql_eq c p \<longleftrightarrow> p = Some c"
  by (cases p) auto

lemma get_issues_rows:
  "\<exists>rows. get_issues env q (idle d) = respond (Response 200 (IssueRows rows)) (idle d)
     \<and> mset rows = mset (filter (\<lambda>r.
           (truthy (field q ''severity'') \<longrightarrow> bind_text env (field q ''severity'') = Some (i_severity r))
         \<and> (truthy (field q ''status'') \<longrightarrow> bind_text env (field q ''status'') = Some (i_status r)))
         (issues d))
     \<and> (\<forall>j < length rows. \<forall>i < j. i_created_at (rows ! j) \<le> i_created_at (rows ! i))"
proof -
  let ?sv = "if truthy (field q ''severity'') then Some (bind_text env (field q ''severity'')) else None"
  let ?st = "if truthy (field q ''status'') then Some (bind_text env (field q ''status'')) else None"
  obtain rows where rows: "select_issues ?sv ?st d = Inr rows"
    by (simp add: select_issues_def)
  have "get_issues env q (idle d) = respond (Response 200 (IssueRows rows)) (idle d)"
    using rows by (simp add: get_issues_def Let_def idle_sel)
  moreover have "mset rows = mset (filter (\<lambda>r.
           (truthy (field q ''severity'') \<longrightarrow> bind_text env (field q ''severity'') = Some (i_severity r))
         \<and> (truthy (field q ''status'') \<longrightarrow> bind_text env (field q ''status'') = Some (i_status r)))
         (issues d))"
    unfolding select_issues_mset [OF rows]
    by (rule arg_cong [where f = mset], rule filter_cong) (auto simp: sql_eq_Some)
  moreover have "\<forall>j < length rows. \<forall>i < j. i_created_at (rows ! j) \<le> i_created_at (rows ! i)"
    using select_issues_sorted [OF rows] by blast
  ultimately show ?thesis by blast
qed

text \<open>
  C6, as stated: when both parameters are given, only rows matching both are returned. It
  fails for a parameter given with the empty value: \<open>?severity=&status=open\<close> returns the
  open issue of severity "high", because the handler adds a filter only for a truthy
  value.
\<close>

theorem issues_both_filters_counterexample:
  "field [(''severity'', Str []), (''status'', Str ''open'')] ''severity'' = Str []
   \<and> field [(''severity'', Str []), (''status'', Str ''open'')] ''status'' = Str ''open''
   \<and> get_issues sample_env [(''severity'', Str []), (''status'', Str ''open'')] (idle two_issues) =
       respond (Response 200 (IssueRows
         [\<lparr>i_id = 2, i_title = ''Typo'', i_severity = ''low'', i_status = ''open'',
           i_created_at = 1650000000\<rparr>,
          \<lparr>i_id = 1, i_title = ''Crash'', i_severity = ''high'', i_status = ''open'',
           i_created_at = 1600000000\<rparr>])) (idle two_issues)
   \<and> i_severity \<lparr>i_id = 1, i_title = ''Crash'', i_severity = ''high'', i_status = ''open'',
           i_created_at = 1600000000\<rparr> \<noteq> []"
  by (simp add: get_issues_def select_issues_def field_def bind_text_def idle_sel two_issues_def
      empty_store_def)

text \<open>
  C6, amended. For every request the response is 200 with the rows most recent first. A
  parameter that is absent or empty adds no filter. When severity and status are each
  absent or a single string, the rows returned are exactly those that match every
  non-empty parameter: the rows matching both when both are given non-empty, the rows
  matching the one that is non-empty when the other is absent or empty, and all rows when
  neither is given non-empty. A repeated or bracketed parameter arrives as an array or an
  object; it adds a filter that compares the column with the value the binding stores
  for it.
\<close>

theorem issues_filtered_and_ordered:
  "(\<exists>rows. get_issues env q (idle d) = respond (Response 200 (IssueRows rows)) (idle d)
      \<and> mset rows = mset (filter (\<lambda>r.
            (truthy (field q ''severity'') \<longrightarrow> bind_text env (field q ''severity'') = Some (i_severity r))
          \<and> (truthy (field q ''status'') \<longrightarrow> bind_text env (field q ''status'') = Some (i_status r)))
          (issues d))
      \<and> (\<forall>j < length rows. \<forall>i < j. i_created_at (rows ! j) \<le> i_created_at (rows ! i)))
   \<and> ((field q ''severity'' = Undefined \<or> field q ''severity'' = Str sv)
      \<and> (field q ''status'' = Undefined \<or> field q ''status'' = Str st) \<longrightarrow>
      (\<exists>rows. get_issues env q (idle d) = respond (Response 200 (IssueRows rows)) (idle d)
         \<and> mset rows = mset (filter (\<lambda>r.
               (field q ''severity'' = Str sv \<and> sv \<noteq> [] \<longrightarrow> i_severity r = sv)
             \<and> (field q ''status'' = Str st \<and> st \<noteq> [] \<longrightarrow> i_status r = st)) (issues d))
         \<and> (\<forall>j < length rows. \<forall>i < j. i_created_at (rows ! j) \<le> i_created_at (rows ! i))))
   \<and> (field q ''severity'' = Str sv \<and> sv \<noteq> [] \<and> field q ''status'' = Str st \<and> st \<noteq> [] \<longrightarrow>
      (\<exists>rows. get_issues env q (idle d) = respond (Response 200 (IssueRows rows)) (idle d)
         \<and> mset rows = mset (filter (\<lambda>r. i_severity r = sv \<and> i_status r = st) (issues d))
         \<and> (\<forall>j < length rows. \<forall>i < j. i_created_at (rows ! j) \<le> i_created_at (rows ! i))))
   \<and> (field q ''severity'' \<in> {Undefined, Str []} \<and> field q ''status'' \<in> {Undefined, Str []} \<longrightarrow>
      (\<exists>rows. get_issues env q (idle d) = respond (Response 200 (IssueRows rows)) (idle d)
         \<and> mset rows = mset (issues d)
         \<and> (\<forall>j < length rows. \<forall>i < j. i_created_at (rows ! j) \<le> i_created_at (rows ! i))))"
proof -
  let ?P = "\<lambda>r. (truthy (field q ''severity'') \<longrightarrow> bind_text env (field q ''severity'') = Some (i_severity r))
          \<and> (truthy (field q ''status'') \<longrightarrow> bind_text env (field q ''status'') = Some (i_status r))"
  from get_issues_rows [of env q d] obtain rows where
    eq: "get_issues env q (idle d) = respond (Response 200 (IssueRows rows)) (idle d)"
    and ms: "mset rows = mset (filter ?P (issues d))"
    and srt: "\<forall>j < length rows. \<forall>i < j. i_created_at (rows ! j) \<le> i_created_at (rows ! i)"
    by blast
  have same: "mset rows = mset (filter Q (issues d))" if "\<And>r. ?P r = Q r" for Q
  proof -
    from that have "filter ?P (issues d) = filter Q (issues d)"
      by (intro filter_cong) auto
    with ms show ?thesis by simp
  qed
  have g: "\<exists>rows. get_issues env q (idle d) = respond (Response 200 (IssueRows rows)) (idle d)
      \<and> mset rows = mset (filter ?P (issues d))
      \<and> (\<forall>j < length rows. \<forall>i < j. i_created_at (rows ! j) \<le> i_created_at (rows ! i))"
    using eq ms srt by blast
  have s: "\<exists>rows. get_issues env q (idle d) = respond (Response 200 (IssueRows rows)) (idle d)
         \<and> mset rows = mset (filter (\<lambda>r.
               (field q ''severity'' = Str sv \<and> sv \<noteq> [] \<longrightarrow> i_severity r = sv)
             \<and> (field q ''status'' = Str st \<and> st \<noteq> [] \<longrightarrow> i_status r = st)) (issues d))
         \<and> (\<forall>j < length rows. \<forall>i < j. i_created_at (rows ! j) \<le> i_created_at (rows ! i))"
    if a: "(field q ''severity'' = Undefined \<or> field q ''severity'' = Str sv)
      \<and> (field q ''status'' = Undefined \<or> field q ''status'' = Str st)"
  proof -
    have "mset rows = mset (filter (\<lambda>r.
               (field q ''severity'' = Str sv \<and> sv \<noteq> [] \<longrightarrow> i_severity r = sv)
             \<and> (field q ''status'' = Str st \<and> st \<noteq> [] \<longrightarrow> i_status r = st)) (issues d))"
      using a by (intro same) (auto simp: bind_text_def)
    with eq srt show ?thesis by blast
  qed
  have b: "\<exists>rows. get_issues env q (idle d) = respond (Response 200 (IssueRows rows)) (idle d)
         \<and> mset rows = mset (filter (\<lambda>r. i_severity r = sv \<and> i_status r = st) (issues d))
         \<and> (\<forall>j < length rows. \<forall>i < j. i_created_at (rows ! j) \<le> i_created_at (rows ! i))"
    if a: "field q ''severity'' = Str sv \<and> sv \<noteq> [] \<and> field q ''status'' = Str st \<and> st \<noteq> []"
  proof -
    have "mset rows = mset (filter (\<lambda>r. i_severity r = sv \<and> i_status r = st) (issues d))"
      using a by (intro same) (auto simp: bind_text_def)
    with eq srt show ?thesis by blast
  qed
  have n: "\<exists>rows. get_issues env q (idle d) = respond (Response 200 (IssueRows rows)) (idle d)
         \<and> mset rows = mset (issues d)
         \<and> (\<forall>j < length rows. \<forall>i < j. i_created_at (rows ! j) \<le> i_created_at (rows ! i))"
    if a: "field q ''severity'' \<in> {Undefined, Str []} \<and> field q ''status'' \<in> {Undefined, Str []}"
  proof -
    have "mset rows = mset (filter (\<lambda>r. True) (issues d))"
      using a by (intro same) auto
    with eq srt show ?thesis by auto
  qed
  from g s b n show ?thesis by blast
qed

theorem issues_filtered_and_ordered_witness:
  "(\<exists>rows. get_issues sample_env [(''severity'', Str ''high''), (''status'', Str ''open'')]
          (idle two_issues) =
        respond (Response 200 (IssueRows rows)) (idle two_issues)
      \<and> mset rows = {#\<lparr>i_id = 1, i_title = ''Crash'', i_severity = ''high'', i_status = ''open'',
           i_created_at = 1600000000\<rparr>#})
   \<and> (\<exists>rows. get_issues sample_env [(''severity'', Str []), (''status'', Str ''open'')]
          (idle two_issues) =
        respond (Response 200 (IssueRows rows)) (idle two_issues)
      \<and> length rows = 2)
   \<and> (\<exists>rows. get_issues sample_env [] (idle two_issues) =
        respond (Response 200 (IssueRows rows)) (idle two_issues)
      \<and> length rows = 2
      \<and> i_created_at (rows ! 1) \<le> i_created_at (rows ! 0))"
proof -
  let ?q1 = "[(''severity'', Str ''high''), (''status'', Str ''open'')]"
  let ?q2 = "[(''severity'', Str []), (''status'', Str ''open'')]"
  from issues_filtered_and_ordered [where q = ?q1 and sv = "''high''" and st = "''open''"
      and d = two_issues and env = sample_env]
  obtain rows1 where r1: "get_issues sample_env ?q1 (idle two_issues) =
        respond (Response 200 (IssueRows rows1)) (idle two_issues)"
    "mset rows1 = mset (filter (\<lambda>r. i_severity r = ''high'' \<and> i_status r = ''open'') (issues two_issues))"
    by (auto simp: field_def)
  from r1(2) have "mset rows1 = {#\<lparr>i_id = 1, i_title = ''Crash'', i_severity = ''high'',
      i_status = ''open'', i_created_at = 1600000000\<rparr>#}"
    by (simp add: two_issues_def empty_store_def)
  with r1(1) have 1: "\<exists>rows. get_issues sample_env ?q1 (idle two_issues) =
        respond (Response 200 (IssueRows rows)) (idle two_issues)
      \<and> mset rows = {#\<lparr>i_id = 1, i_title = ''Crash'', i_severity = ''high'', i_status = ''open'',
           i_created_at = 1600000000\<rparr>#}"
    by blast
  from issues_filtered_and_ordered [where q = ?q2 and sv = "[]" and st = "''open''"
      and d = two_issues and env = sample_env]
  obtain rows2 where r2: "get_issues sample_env ?q2 (idle two_issues) =
        respond (Response 200 (IssueRows rows2)) (idle two_issues)"
    "mset rows2 = mset (filter (\<lambda>r.
               (field ?q2 ''severity'' = Str [] \<and> ([]::string) \<noteq> [] \<longrightarrow> i_severity r = [])
             \<and> (field ?q2 ''status'' = Str ''open'' \<and> ''open'' \<noteq> [] \<longrightarrow> i_status r = ''open''))
             (issues two_issues))"
    by (auto simp: field_def)
  have "length rows2 = 2"
    using mset_eq_length [OF r2(2)] by (simp add: two_issues_def empty_store_def field_def)
  with r2(1) have 2: "\<exists>rows. get_issues sample_env ?q2 (idle two_issues) =
        respond (Response 200 (IssueRows rows)) (idle two_issues) \<and> length rows = 2"
    by blast
  from issues_filtered_and_ordered [where q = "[]" and d = two_issues and env = sample_env]
  obtain rows where r: "get_issues sample_env [] (idle two_issues) =
        respond (Response 200 (IssueRows rows)) (idle two_issues)"
    "mset rows = mset (issues two_issues)"
    "\<forall>j < length rows. \<forall>i < j. i_created_at (rows ! j) \<le> i_created_at (rows ! i)"
    by (auto simp: field_def)
  from r(2) have len: "length rows = 2"
    using mset_eq_length [of rows "issues two_issues"] by (simp add: two_issues_def)
  with r(3) have "i_created_at (rows ! 1) \<le> i_created_at (rows ! 0)" by auto
  with r(1) len have 3: "\<exists>rows. get_issues sample_env [] (idle two_issues) =
        respond (Response 200 (IssueRows rows)) (idle two_issues)
      \<and> length rows = 2
      \<and> i_created_at (rows ! 1) \<le> i_created_at (rows ! 0)"
    by blast
  from 1 2 3 show ?thesis by blast
qed

lemma js_trim_ui: "js_trim ''ui'' = ''ui''"
  by code_simp

lemma post_one_tag:
  "post_plugins sample_env one_tag_request (idle empty_store) =
     hand_over (InsertPlugin ''Linter'' ''Ada'' ''1.0.0'' (Fin 4) [''ui'']) (idle empty_store)"
  by (simp add: post_plugins_def one_tag_request_def field_def js_trim_samples normalize_tags_def)

lemma post_twice_tag:
  "post_plugins sample_env twice_tag_request (idle empty_store) =
     hand_over (InsertPlugin ''Linter'' ''Ada'' ''1.0.0'' (Fin 4) [''ui'', ''ui'']) (idle empty_store)"
  by (simp add: post_plugins_def twice_tag_request_def field_def js_trim_samples normalize_tags_def)

lemmas run_simps = run_def step_def hand_over_def idle_def empty_store_def insert_plugin_def
  ensureTagExists_def js_trim_ui select_tag_id_def tag_inserted_def insert_tag_def
  tag_callback_def linkPluginTag_def respond_def console_error_def next_rowid_def Let_def
  insert_or_ignore_link_def

subsection \<open>The response and the link writes\<close>

lemma last_tag_callback_links_then_responds:
  assumes "pending s = 1" and "p \<noteq> 0" and "t \<noteq> 0"
  shows "tag_callback p (Some t) s =
     respond (Response 201 (PluginAdded ''Plugin successfully added'' p))
       (hand_over (LinkRow p t) s\<lparr>pending := 0\<rparr>)"
  using assms by (simp add: tag_callback_def linkPluginTag_def hand_over_def respond_def Let_def)

text \<open>
  C2. The claim: the 201 response is written only when no link write of the plugin is still
  outstanding. The code: for the request with tags \<open>["ui"]\<close> on the empty store, once the
  plugin insert, the lookup of the tag and the insert of the tag have been executed, the
  201 response has been written, the link insert is still in flight and \<open>plugin_tags\<close> has
  no row. The callback of the tag loop counts a tag as processed as soon as
  \<open>linkPluginTag\<close> has returned, which is before its statement is executed.
\<close>

theorem response_written_before_link_insert:
  "run [0, 0, 0] (post_plugins sample_env one_tag_request (idle empty_store)) =
   \<lparr>db = empty_store\<lparr>plugins := [\<lparr>p_id = 1, p_name = ''Linter'', p_author = ''Ada'',
                                       p_version = ''1.0.0'', p_rating = Fin 4\<rparr>],
                         plugins_seq := 1, tags := [(1, ''ui'')], tags_seq := 1\<rparr>,
     queue = [LinkRow 1 1], pending = 0,
     sent = [Response 201 (PluginAdded ''Plugin successfully added'' 1)], console = []\<rparr>
   \<and> plugin_tags (db (run [0, 0, 0] (post_plugins sample_env one_tag_request (idle empty_store)))) = []
   \<and> plugin_tags (db (run [0, 0, 0, 0] (post_plugins sample_env one_tag_request (idle empty_store)))) =
       [(1, 1)]"
  unfolding post_one_tag by (simp add: run_simps)

theorem response_written_before_link_insert_witness:
  "sent (run [0, 0, 0] (post_plugins sample_env one_tag_request (idle empty_store))) =
     [Response 201 (PluginAdded ''Plugin successfully added'' 1)]
   \<and> queue (run [0, 0, 0] (post_plugins sample_env one_tag_request (idle empty_store))) =
     [LinkRow 1 1]"
  using response_written_before_link_insert by simp

subsection \<open>The tag resolver when the insert fails\<close>

text \<open>
  C1, as stated: when the insert of the tag fails on the unique name, the resolver fetches
  the id of the existing row and passes it on, and the link is attempted. The code: for the
  request with tags \<open>["ui", "ui"]\<close> on the empty store both lookups are executed before
  either insert. After the first insert, the second one fails on the unique name although
  the row with id 1 exists; the resolver passes \<open>null\<close>, the error is logged, and no
  second link is handed to the store.
\<close>

theorem tag_conflict_counterexample:
  "queue (run [0, 0, 0, 0] (post_plugins sample_env twice_tag_request (idle empty_store))) =
     [InsertTag 1 ''ui'', LinkRow 1 1]
   \<and> insert_tag ''ui''
        (db (run [0, 0, 0, 0] (post_plugins sample_env twice_tag_request (idle empty_store)))) =
       Inl (Constraint ''UNIQUE constraint failed: tags.name'')
   \<and> select_tag_id ''ui''
        (db (run [0, 0, 0, 0] (post_plugins sample_env twice_tag_request (idle empty_store)))) =
       Inr (Some 1)
   \<and> fst (tag_inserted ''ui''
        (run [0, 0, 0, 0] (post_plugins sample_env twice_tag_request (idle empty_store)))) \<noteq> Some 1
   \<and> queue (run [0, 0, 0, 0, 0] (post_plugins sample_env twice_tag_request (idle empty_store))) =
       [LinkRow 1 1]
   \<and> console (run [0, 0, 0, 0, 0] (post_plugins sample_env twice_tag_request (idle empty_store))) =
       ['' Error inserting tag:'']"
  unfolding post_twice_tag by (simp add: run_simps)

text \<open>
  C1, amended. When the name is already in the table, the insert fails, the resolver logs
  the error and passes \<open>null\<close>: it does not fetch the existing id. The caller hands no
  link to the store for that callback, counts the tag as processed, and the store is
  unchanged. The failure is not passed on as an error response: the only response this
  step can write is the 201, when the tag was the last one pending.
\<close>

theorem tag_conflict_yields_null:
  "n \<in> snd ` set (tags (db s)) \<longrightarrow>
     tag_inserted n s = (None, console_error '' Error inserting tag:'' s)
     \<and> db (exec (InsertTag p n) s) = db s
     \<and> queue (exec (InsertTag p n) s) = queue s
     \<and> pending (exec (InsertTag p n) s) = pending s - 1
     \<and> console (exec (InsertTag p n) s) = console s @ ['' Error inserting tag:'']
     \<and> sent (exec (InsertTag p n) s) =
         (if pending s = 1
          then sent s @ [Response 201 (PluginAdded ''Plugin successfully added'' p)]
          else sent s)"
  by (simp add: tag_inserted_def insert_tag_def tag_callback_def respond_def console_error_def
      Let_def)

theorem tag_conflict_yields_null_witness:
  "tag_inserted ''ui'' (idle (empty_store\<lparr>tags := [(1, ''ui'')], tags_seq := 1\<rparr>)) =
     (None, console_error '' Error inserting tag:''
              (idle (empty_store\<lparr>tags := [(1, ''ui'')], tags_seq := 1\<rparr>)))
   \<and> queue (exec (InsertTag 1 ''ui'') (idle (empty_store\<lparr>tags := [(1, ''ui'')], tags_seq := 1\<rparr>))) = []"
proof -
  let ?s = "idle (empty_store\<lparr>tags := [(1, ''ui'')], tags_seq := 1\<rparr>)"
  have pre: "''ui'' \<in> snd ` set (tags (db ?s))"
    by (simp add: idle_sel)
  from tag_conflict_yields_null [where n = "''ui''" and p = 1 and s = ?s] pre
  have a: "tag_inserted ''ui'' ?s = (None, console_error '' Error inserting tag:'' ?s)"
    and b: "queue (exec (InsertTag 1 ''ui'') ?s) = queue ?s"
    by blast+
  from b have "queue (exec (InsertTag 1 ''ui'') ?s) = []"
    by (simp only: idle_sel)
  with a show ?thesis by blast
qed

subsection \<open>The tag loop keeps its invariant\<close>







subsection \<open>One statement of the tag loop\<close>










subsection \<open>From the plugin insert to the tag loop\<close>







subsection \<open>When the tag loop has finished\<close>






lemma fold_max_snoc: "fold max (xs @ [x]) (sq::nat) = max x (fold max xs sq)"
  by simp


subsection \<open>Every request comes to an end\<close>








subsection \<open>Tags and links after plugin creation\<close>




















end
